theory Spec2Isabelle
  imports Complex_Main
begin

section \<open>Data model\<close>

text \<open>
  \<^verbatim>\<open>struct Weather { char obsTimeLocal[64]; int humidityAvg; float tempAvg;
  float precipRate; float precipTotal; }\<close> of \<^verbatim>\<open>OS_WU_WeatherService_V2.h\<close>.
  The C \<^verbatim>\<open>int\<close> fields are mathematical integers and the \<^verbatim>\<open>float\<close> fields exact
  rationals: the rounding of binary32 and the range of \<^verbatim>\<open>int\<close> are not modelled.
  \<open>obsTimeLocal\<close> is the C string held in the 64-byte array, without its terminator.
\<close>

record Weather =
  obsTimeLocal :: string
  humidityAvg :: int
  tempAvg :: rat
  precipRate :: rat
  precipTotal :: rat

text \<open>
  The \<^verbatim>\<open>StaticJsonDocument\<close> that ArduinoJson's \<^verbatim>\<open>deserializeJson\<close> fills, seen through
  the five members the decoder asks for. A member is \<open>None\<close> when the object does not
  have it or holds a value the requested conversion rejects; the library then hands out
  its default (0 for a number, the right operand of \<^verbatim>\<open>|\<close> where one is given).
\<close>

record JsonDocument =
  member_obsTimeLocal :: "string option"
  member_humidityAvg :: "int option"
  member_tempAvg :: "rat option"
  member_precipRate :: "rat option"
  member_precipTotal :: "rat option"

text \<open>
  What the stream delivers for one turn of the element loop: the outcome of
  \<^verbatim>\<open>deserializeJson(doc, stream)\<close> (\<open>None\<close> is a \<^verbatim>\<open>DeserializationError\<close>) and the
  outcome of the \<^verbatim>\<open>stream.findUntil(",", "]")\<close> that follows it (true when the comma
  came first).
\<close>

datatype element = Element (parsed: "JsonDocument option") (comma_follows: bool)

text \<open>
  One HTTPS exchange with api.weather.com, as the outcomes of the library calls that
  \<^verbatim>\<open>fetchWUdata\<close> makes on its \<^verbatim>\<open>WiFiClientSecure\<close>, in the order it makes them.
\<close>

record exchange =
  connect_ok :: bool
  println_ok :: bool
  status_200 :: bool
  marker_found :: bool
  array_body :: "element list"

text \<open>
  A caller's array of \<^verbatim>\<open>Weather\<close>: the length its declaration gives it and the cells
  that the pointer handed to \<^verbatim>\<open>fetchWUdata\<close> addresses. C does not check an index against
  the declared length, so the operations below work on \<open>cells\<close>.
\<close>

record buffer =
  declared :: nat
  cells :: "Weather list"

datatype connection = NotConnected | Open | Stopped

record fetched =
  count :: nat
  data :: buffer
  client :: connection

section \<open>part\_001: the fetch functions\<close>

text \<open>\<^verbatim>\<open>strlcpy(dst, src, size)\<close>: at most \<open>size - 1\<close> bytes of the source string.\<close>

definition strlcpy :: "string \<Rightarrow> nat \<Rightarrow> string" where
  "strlcpy src dstsize = take (dstsize - 1) src"

text \<open>\<^verbatim>\<open>sendRequest\<close> returns \<^verbatim>\<open>client.println() != 0\<close> of its last line.\<close>

definition sendRequest :: "exchange \<Rightarrow> bool" where
  "sendRequest x = println_ok x"

text \<open>\<^verbatim>\<open>checkResponse\<close>: the bytes 9..14 of the status line are \<^verbatim>\<open>200 OK\<close>.\<close>

definition checkResponse :: "exchange \<Rightarrow> bool" where
  "checkResponse x = status_200 x"

definition jumpTostart :: "exchange \<Rightarrow> bool" where
  "jumpTostart x = marker_found x"

definition jumpToNextElement :: "element \<Rightarrow> bool" where
  "jumpToNextElement e = comma_follows e"

text \<open>
  \<^verbatim>\<open>deserializeJson\<close> on the rest of the stream: the next element's outcome; at the end
  of the stream the parser reports an error.
\<close>

definition deserializeJson :: "element list \<Rightarrow> JsonDocument option" where
  "deserializeJson s = (case s of [] \<Rightarrow> None | e # _ \<Rightarrow> parsed e)"

text \<open>
  \<^verbatim>\<open>deserializeWeatherData(stream, w)\<close>, given the outcome of its \<^verbatim>\<open>deserializeJson\<close>:
  \<open>None\<close> when it returns false (\<open>w\<close> is then left as it was), otherwise the record
  it has written to all five fields of \<open>w\<close>.
\<close>

definition deserializeWeatherData :: "JsonDocument option \<Rightarrow> Weather option" where
  "deserializeWeatherData r =
     (case r of
        None \<Rightarrow> None
      | Some doc \<Rightarrow>
          Some \<lparr> obsTimeLocal =
                   strlcpy (case member_obsTimeLocal doc of None \<Rightarrow> ''N/A'' | Some t \<Rightarrow> t) 64,
                 humidityAvg = (case member_humidityAvg doc of None \<Rightarrow> 0 | Some h \<Rightarrow> h),
                 tempAvg = (case member_tempAvg doc of None \<Rightarrow> 0 | Some t \<Rightarrow> t),
                 precipRate = (case member_precipRate doc of None \<Rightarrow> 0 | Some p \<Rightarrow> p),
                 precipTotal = (case member_precipTotal doc of None \<Rightarrow> 0 | Some p \<Rightarrow> p) \<rparr>)"

definition store :: "buffer \<Rightarrow> nat \<Rightarrow> Weather \<Rightarrow> buffer" where
  "store b i w = b \<lparr> cells := (cells b) [i := w] \<rparr>"

text \<open>
  The loop of \<^verbatim>\<open>fetchWUdata\<close>, lines 116-124, from \<open>n\<close> on:
  \<^verbatim>\<open>while (n < maxData) {
    if (!deserializeWeatherData(client, weatherData[n++])) break;
    if (!jumpToNextElement(client)) break; }\<close>
  The argument \<^verbatim>\<open>weatherData[n++]\<close> is evaluated before the call, so \<open>n\<close> has been
  incremented on both ways out of the body.
\<close>

fun read_elements :: "element list \<Rightarrow> buffer \<Rightarrow> nat \<Rightarrow> nat \<Rightarrow> nat \<times> buffer" where
  "read_elements [] b n maxData = (if n < maxData then (Suc n, b) else (n, b))"
| "read_elements (e # s) b n maxData =
     (if n < maxData then
        (case deserializeWeatherData (deserializeJson (e # s)) of
           None \<Rightarrow> (Suc n, b)
         | Some w \<Rightarrow>
             (if jumpToNextElement e then read_elements s (store b n w) (Suc n) maxData
              else (Suc n, store b n w)))
      else (n, b))"

text \<open>
  \<^verbatim>\<open>client.stop()\<close> closes a connection that is open and does nothing otherwise.
\<close>

definition stop :: "connection \<Rightarrow> connection" where
  "stop c = (case c of Open \<Rightarrow> Stopped | NotConnected \<Rightarrow> NotConnected | Stopped \<Rightarrow> Stopped)"

text \<open>
  \<^verbatim>\<open>WiFiClientSecure client;\<close> of line 81 is an automatic object of \<^verbatim>\<open>fetchWUdata\<close>: it is
  destroyed at every \<^verbatim>\<open>return\<close>, before control is back in the caller. The destructor
  \<^verbatim>\<open>~WiFiClientSecure()\<close> of the ESP32 core calls \<^verbatim>\<open>stop()\<close>.
\<close>

definition destroy :: "connection \<Rightarrow> connection" where
  "destroy c = stop c"

text \<open>
  \<^verbatim>\<open>fetchWUdata\<close>, lines 77-127. \<open>client\<close> is the connection when the function has
  returned: what the body did to it up to the \<^verbatim>\<open>return\<close> (\<^verbatim>\<open>connect\<close> of line 84 opens
  it, \<^verbatim>\<open>client.stop()\<close> of line 125 is on the way through the loop only), and then the
  destructor. The request text (path, station, key, marker) only selects which exchange
  takes place.
\<close>

definition fetchWUdata :: "exchange \<Rightarrow> buffer \<Rightarrow> nat \<Rightarrow> fetched" where
  "fetchWUdata x weatherData maxData =
     (if \<not> connect_ok x then
        \<lparr> count = 0, data = weatherData, client = destroy NotConnected \<rparr>
      else if \<not> sendRequest x then
        \<lparr> count = 0, data = weatherData, client = destroy Open \<rparr>
      else if \<not> checkResponse x then
        \<lparr> count = 0, data = weatherData, client = destroy Open \<rparr>
      else if \<not> jumpTostart x then
        \<lparr> count = 0, data = weatherData, client = destroy Open \<rparr>
      else (case read_elements (array_body x) weatherData 0 maxData of
              (n, b) \<Rightarrow> \<lparr> count = n, data = b, client = destroy (stop Open) \<rparr>))"

text \<open>
  The stream behind the marker for a JSON array with the elements \<open>ds\<close>, each an object
  the parser accepts: a comma follows every element but the last, the closing bracket
  follows the last. An empty array is the bracket alone, which begins no JSON value, so
  the parser reports an error.
\<close>

fun json_array :: "JsonDocument list \<Rightarrow> element list" where
  "json_array [] = [Element None False]"
| "json_array [d] = [Element (Some d) False]"
| "json_array (d # d' # ds) = Element (Some d) True # json_array (d' # ds)"

definition served :: "element list \<Rightarrow> exchange" where
  "served body = \<lparr> connect_ok = True, println_ok = True, status_200 = True,
                    marker_found = True, array_body = body \<rparr>"

definition no_document :: JsonDocument where
  "no_document = \<lparr> member_obsTimeLocal = None, member_humidityAvg = None,
                    member_tempAvg = None, member_precipRate = None,
                    member_precipTotal = None \<rparr>"

definition blank :: Weather where
  "blank = \<lparr> obsTimeLocal = [], humidityAvg = 0, tempAvg = 0, precipRate = 0, precipTotal = 0 \<rparr>"

section \<open>The sketches: persistent state and constants\<close>

text \<open>
  The three variables kept in RTC memory over deep sleep (\<^verbatim>\<open>RTC_DATA_ATTR\<close>), the same
  in OS\_WU\_WeatherService\_V2.ino and in part\_000.
\<close>

record rtc =
  bootCount :: int
  raindelayActive :: bool
  raindelayCount :: int

definition first_boot :: rtc where
  "first_boot = \<lparr> bootCount = 0, raindelayActive = False, raindelayCount = 0 \<rparr>"

definition maxbootCount :: int where "maxbootCount = 11"
definition maxrainCount :: int where "maxrainCount = 11"
definition humidityBase :: int where "humidityBase = 65"
definition tempBase :: rat where "tempBase = 70"
definition precipBase :: rat where "precipBase = 0"
definition rainDelay :: int where "rainDelay = 3"

text \<open>
  The HTTP GET requests sent to OpenSprinkler, by their parameter: \<^verbatim>\<open>cv?pw=...&rd=\<close>,
  \<^verbatim>\<open>co?pw=...&wl=\<close> (V2) and \<^verbatim>\<open>co?pw=...&o23=\<close> (part\_000). The answer to a request is
  only printed, so it is no input of the model.
\<close>

datatype request = Control_rd int | Change_wl int | Change_o23 int

text \<open>
  What one wake-up meets: whether the WiFi connection comes up (in V2: whether the loop
  of lines 100-107 ends with \<^verbatim>\<open>no_of_trials < 20\<close>), the exchange of each of the two
  fetches, and what the stack holds where the two local arrays are placed.
\<close>

record wakeup =
  wifi_connected :: bool
  current_exchange :: exchange
  history_exchange :: exchange
  current_stack :: Weather
  history_stack :: "nat \<Rightarrow> Weather"

text \<open>
  \<^verbatim>\<open>Weather currentData[0];\<close> in both sketches: declared with no element. The sketches
  go on to use its element 0, so the model gives the pointer one cell, taken to be apart
  from every other variable; where that element really lies is a matter of the stack
  layout. The sketches with checked accesses, further down, take the array as it is
  declared.
\<close>

definition currentData :: "Weather \<Rightarrow> buffer" where
  "currentData g = \<lparr> declared = 0, cells = [g] \<rparr>"

text \<open>\<^verbatim>\<open>Weather historyData[8];\<close> (V2) and \<^verbatim>\<open>Weather historyData[7];\<close> (part\_000).\<close>

definition historyData :: "nat \<Rightarrow> (nat \<Rightarrow> Weather) \<Rightarrow> buffer" where
  "historyData len g = \<lparr> declared = len, cells = map g [0..<len] \<rparr>"

text \<open>An array access that checks the index against the declared length.\<close>

definition at_checked :: "buffer \<Rightarrow> nat \<Rightarrow> Weather option" where
  "at_checked b i = (if i < declared b then Some (cells b ! i) else None)"

text \<open>
  The conversion of a \<^verbatim>\<open>float\<close> to \<^verbatim>\<open>int\<close>: towards zero. The 32 bits of the \<^verbatim>\<open>int\<close>
  are not modelled: outside that range the conversion of the source is undefined.
\<close>

definition int_of_float :: "rat \<Rightarrow> int" where
  "int_of_float x = (if 0 \<le> x then \<lfloor>x\<rfloor> else \<lceil>x\<rceil>)"

text \<open>
  The Zimmerman calculation, V2 lines 272-301 and part\_000 lines 211-240, from
  yesterday's record \<open>h\<close> and the current record \<open>c\<close>. \<^verbatim>\<open>percentWatering\<close> is an
  \<^verbatim>\<open>int\<close>: the sum is formed in \<^verbatim>\<open>float\<close> and converted. The definition is the
  calculation without rounding. The source rounds to binary32 after every operation, so
  its value can differ from this one (for the stored record 95, 60, 0.1f the source
  gives 10 and the exact sum 9.9999997 gives 0). Below, the value is only used on
  sample inputs for which every intermediate result is exact in binary32; no statement
  about the value on other inputs is made.
\<close>

definition percentWatering :: "Weather \<Rightarrow> Weather \<Rightarrow> int" where
  "percentWatering h c =
     (let humidityFactor = humidityBase - humidityAvg h;
          tempFactor = (tempAvg h - tempBase) * 4;
          precipFactor = (precipBase - precipTotal h - precipTotal c) * 200;
          percent = int_of_float (of_int humidityFactor + tempFactor + precipFactor + 100)
      in if percent < 10 then 0 else percent)"

section \<open>OS\_WU\_WeatherService\_V2.ino: setup\<close>

text \<open>
  Lines 143-208. \<open>m\<close> is the count of the current-conditions fetch, \<open>cur\<close> the array
  after it.
\<close>

definition rain_evaluation_V2 :: "rtc \<Rightarrow> nat \<Rightarrow> buffer \<Rightarrow> rtc \<times> request list" where
  "rain_evaluation_V2 st m cur =
     (if m > 0 then
        (if precipRate (cells cur ! 0) > 0 then
           (let st1 = st \<lparr> raindelayActive := True \<rparr>;
                sent = (if raindelayActive st1 \<and> raindelayCount st1 = 0
                        then [Control_rd rainDelay] else []);
                st2 = st1 \<lparr> raindelayCount :=
                        (if raindelayCount st1 < maxrainCount then raindelayCount st1 + 1
                         else 0) \<rparr>
            in (st2, sent))
         else (st \<lparr> raindelayActive := False, raindelayCount := 0 \<rparr>, []))
      else (st, []))"

text \<open>The condition of lines 263-265 that clears \<^verbatim>\<open>validhistoryData\<close>.\<close>

definition history_rejected :: "nat \<Rightarrow> buffer \<Rightarrow> bool" where
  "history_rejected n hist =
     (n < 2 \<or> tempAvg (cells hist ! (n - 2)) < 14 \<or> tempAvg (cells hist ! (n - 2)) > 113
      \<or> humidityAvg (cells hist ! (n - 2)) < 0 \<or> humidityAvg (cells hist ! (n - 2)) > 100
      \<or> precipRate (cells hist ! (n - 2)) < 0 \<or> precipTotal (cells hist ! (n - 2)) < 0)"

text \<open>Lines 223-332: the history fetch and the update of the water level.\<close>

definition watering_evaluation_V2 :: "rtc \<Rightarrow> wakeup \<Rightarrow> buffer \<Rightarrow> request list" where
  "watering_evaluation_V2 st inp cur =
     (if bootCount st = 0 then
        (let f = fetchWUdata (history_exchange inp) (historyData 8 (history_stack inp)) 8;
             n = count f
         in if history_rejected n (data f) then []
            else [Change_wl (percentWatering (cells (data f) ! (n - 2)) (cells cur ! 0))])
      else [])"

text \<open>
  \<^verbatim>\<open>setup\<close> of V2, from the persistent state at wake-up to the state at deep sleep and
  the requests sent. When the WiFi connection fails (lines 109-122) the sketch goes back
  to sleep at once.
\<close>

definition setup_V2 :: "rtc \<Rightarrow> wakeup \<Rightarrow> rtc \<times> request list" where
  "setup_V2 st inp =
     (if \<not> wifi_connected inp then (st, [])
      else
        (let f = fetchWUdata (current_exchange inp) (currentData (current_stack inp)) 1;
             (st1, sent1) = rain_evaluation_V2 st (count f) (data f);
             sent2 = watering_evaluation_V2 st1 inp (data f);
             st2 = st1 \<lparr> bootCount :=
                     (if bootCount st1 < maxbootCount then bootCount st1 + 1 else 0) \<rparr>
         in (st2, sent1 @ sent2)))"

text \<open>A run of wake-ups, each starting from the state the last one left in RTC memory.\<close>

fun wake_cycles :: "rtc \<Rightarrow> wakeup list \<Rightarrow> rtc" where
  "wake_cycles st [] = st"
| "wake_cycles st (inp # inps) = wake_cycles (fst (setup_V2 st inp)) inps"

section \<open>part\_000: setup\<close>

text \<open>Lines 126-170: the rain evaluation, on element 0 of the array whatever the fetch gave.\<close>

definition rain_evaluation_part_000 :: "rtc \<Rightarrow> buffer \<Rightarrow> rtc \<times> request list" where
  "rain_evaluation_part_000 st cur =
     (if precipRate (cells cur ! 0) > 0 then
        (let st1 = st \<lparr> raindelayActive := True \<rparr>;
             sent = (if raindelayActive st1 \<and> raindelayCount st1 = 0
                     then [Control_rd rainDelay] else []);
             st2 = st1 \<lparr> raindelayCount :=
                     (if raindelayCount st1 < maxrainCount then raindelayCount st1 + 1
                      else 0) \<rparr>
         in (st2, sent))
      else (st \<lparr> raindelayActive := False \<rparr>, []))"

text \<open>Lines 179-270: the history fetch of 7 records; yesterday is \<^verbatim>\<open>historyData[5]\<close>.\<close>

definition watering_evaluation_part_000 :: "rtc \<Rightarrow> wakeup \<Rightarrow> buffer \<Rightarrow> request list" where
  "watering_evaluation_part_000 st inp cur =
     (if bootCount st = 0 then
        (let f = fetchWUdata (history_exchange inp) (historyData 7 (history_stack inp)) 7
         in [Change_o23 (percentWatering (cells (data f) ! 5) (cells cur ! 0))])
      else [])"

text \<open>
  \<^verbatim>\<open>setup\<close> of part\_000. Its loop of lines 95-101 waits until the WiFi connection is
  up: without a connection it never gets further, which is \<open>None\<close>.
\<close>

definition setup_part_000 :: "rtc \<Rightarrow> wakeup \<Rightarrow> (rtc \<times> request list) option" where
  "setup_part_000 st inp =
     (if \<not> wifi_connected inp then None
      else
        (let f = fetchWUdata (current_exchange inp) (currentData (current_stack inp)) 1;
             (st1, sent1) = rain_evaluation_part_000 st (data f);
             sent2 = watering_evaluation_part_000 st1 inp (data f);
             st2 = st1 \<lparr> bootCount :=
                     (if bootCount st1 < maxbootCount then bootCount st1 + 1 else 0) \<rparr>
         in Some (st2, sent1 @ sent2)))"

section \<open>The sketches with checked array accesses\<close>

text \<open>
  The same two sketches and the same fetch, with every access to an element of an array
  made through \<open>at_checked\<close>: an index that is not below the declared length ends the
  run with the fault \<open>OutOfBounds\<close> of the declared length and the index.
\<close>

datatype fault = OutOfBounds nat nat

definition read_checked :: "buffer \<Rightarrow> nat \<Rightarrow> fault + Weather" where
  "read_checked b i =
     (case at_checked b i of None \<Rightarrow> Inl (OutOfBounds (declared b) i) | Some w \<Rightarrow> Inr w)"

definition write_checked :: "buffer \<Rightarrow> nat \<Rightarrow> Weather \<Rightarrow> fault + buffer" where
  "write_checked b i w =
     (case at_checked b i of None \<Rightarrow> Inl (OutOfBounds (declared b) i)
      | Some _ \<Rightarrow> Inr (store b i w))"

text \<open>Sequencing: a fault ends the run.\<close>

definition then_do :: "fault + 'a \<Rightarrow> ('a \<Rightarrow> fault + 'b) \<Rightarrow> fault + 'b" where
  "then_do r k = (case r of Inl f \<Rightarrow> Inl f | Inr v \<Rightarrow> k v)"

text \<open>\<^verbatim>\<open>Weather currentData[0];\<close> as it is declared: an array without elements.\<close>

definition currentData_declared :: buffer where
  "currentData_declared = \<lparr> declared = 0, cells = [] \<rparr>"

text \<open>
  The loop of \<^verbatim>\<open>fetchWUdata\<close>. \<^verbatim>\<open>deserializeWeatherData\<close> assigns to the fields of
  \<^verbatim>\<open>weatherData[n]\<close> (lines 53-58) when the document was parsed, and to nothing
  otherwise.
\<close>

fun read_elements_checked ::
  "element list \<Rightarrow> buffer \<Rightarrow> nat \<Rightarrow> nat \<Rightarrow> fault + (nat \<times> buffer)" where
  "read_elements_checked [] b n maxData = Inr (if n < maxData then (Suc n, b) else (n, b))"
| "read_elements_checked (e # s) b n maxData =
     (if n < maxData then
        (case deserializeWeatherData (deserializeJson (e # s)) of
           None \<Rightarrow> Inr (Suc n, b)
         | Some w \<Rightarrow>
             (case write_checked b n w of
                Inl f \<Rightarrow> Inl f
              | Inr b' \<Rightarrow>
                  (if jumpToNextElement e then read_elements_checked s b' (Suc n) maxData
                   else Inr (Suc n, b'))))
      else Inr (n, b))"

definition fetchWUdata_checked :: "exchange \<Rightarrow> buffer \<Rightarrow> nat \<Rightarrow> fault + fetched" where
  "fetchWUdata_checked x weatherData maxData =
     (if \<not> connect_ok x then
        Inr \<lparr> count = 0, data = weatherData, client = destroy NotConnected \<rparr>
      else if \<not> sendRequest x then
        Inr \<lparr> count = 0, data = weatherData, client = destroy Open \<rparr>
      else if \<not> checkResponse x then
        Inr \<lparr> count = 0, data = weatherData, client = destroy Open \<rparr>
      else if \<not> jumpTostart x then
        Inr \<lparr> count = 0, data = weatherData, client = destroy Open \<rparr>
      else then_do (read_elements_checked (array_body x) weatherData 0 maxData)
             (\<lambda>(n, b). Inr \<lparr> count = n, data = b, client = destroy (stop Open) \<rparr>))"

text \<open>
  The loops that print the history (V2 lines 232-249, part\_000 lines 186-203) read
  \<^verbatim>\<open>historyData[i]\<close> for every \<open>i\<close> below the count.
\<close>

fun read_each :: "buffer \<Rightarrow> nat \<Rightarrow> fault + unit" where
  "read_each b 0 = Inr ()"
| "read_each b (Suc i) =
     then_do (read_each b i) (\<lambda>_. then_do (read_checked b i) (\<lambda>_. Inr ()))"

text \<open>
  V2 lines 143-208: with \<open>m > 0\<close> the sketch reads \<^verbatim>\<open>currentData[0]\<close> (lines 146, 148,
  151 and 154).
\<close>

definition rain_evaluation_V2_checked ::
  "rtc \<Rightarrow> nat \<Rightarrow> buffer \<Rightarrow> fault + (rtc \<times> request list)" where
  "rain_evaluation_V2_checked st m cur =
     (if m > 0 then
        then_do (read_checked cur 0) (\<lambda>c.
          (if precipRate c > 0 then
             (let st1 = st \<lparr> raindelayActive := True \<rparr>;
                  sent = (if raindelayActive st1 \<and> raindelayCount st1 = 0
                          then [Control_rd rainDelay] else []);
                  st2 = st1 \<lparr> raindelayCount :=
                          (if raindelayCount st1 < maxrainCount then raindelayCount st1 + 1
                           else 0) \<rparr>
              in Inr (st2, sent))
           else Inr (st \<lparr> raindelayActive := False, raindelayCount := 0 \<rparr>, [])))
      else Inr (st, []))"

text \<open>
  V2 lines 263-265: whether the history is rejected; \<^verbatim>\<open>historyData[n-2]\<close> is read only
  when \<open>n < 2\<close> is false.
\<close>

definition history_checked :: "nat \<Rightarrow> buffer \<Rightarrow> fault + bool" where
  "history_checked n hist =
     (if n < 2 then Inr True
      else then_do (read_checked hist (n - 2)) (\<lambda>h.
             Inr (tempAvg h < 14 \<or> tempAvg h > 113 \<or> humidityAvg h < 0 \<or> humidityAvg h > 100
                  \<or> precipRate h < 0 \<or> precipTotal h < 0)))"

text \<open>
  V2 lines 223-332: the formula reads \<^verbatim>\<open>historyData[n-2]\<close> (lines 272-274) and
  \<^verbatim>\<open>currentData[0]\<close> (line 275).
\<close>

definition watering_evaluation_V2_checked ::
  "rtc \<Rightarrow> wakeup \<Rightarrow> buffer \<Rightarrow> fault + request list" where
  "watering_evaluation_V2_checked st inp cur =
     (if bootCount st = 0 then
        then_do (fetchWUdata_checked (history_exchange inp)
                   (historyData 8 (history_stack inp)) 8) (\<lambda>f.
        then_do (read_each (data f) (count f)) (\<lambda>_.
        then_do (history_checked (count f) (data f)) (\<lambda>rejected.
          if rejected then Inr []
          else then_do (read_checked (data f) (count f - 2)) (\<lambda>h.
               then_do (read_checked cur 0) (\<lambda>c.
                 Inr [Change_wl (percentWatering h c)])))))
      else Inr [])"

text \<open>
  \<^verbatim>\<open>setup\<close> of V2 over a given array of the current conditions, and over the array as
  the sketch declares it. The fetch is called with \<open>maxData = 1\<close> (line 136).
\<close>

definition setup_V2_with :: "buffer \<Rightarrow> rtc \<Rightarrow> wakeup \<Rightarrow> fault + (rtc \<times> request list)" where
  "setup_V2_with cur0 st inp =
     (if \<not> wifi_connected inp then Inr (st, [])
      else
        then_do (fetchWUdata_checked (current_exchange inp) cur0 1) (\<lambda>f.
        then_do (rain_evaluation_V2_checked st (count f) (data f)) (\<lambda>(st1, sent1).
        then_do (watering_evaluation_V2_checked st1 inp (data f)) (\<lambda>sent2.
          Inr (st1 \<lparr> bootCount :=
                       (if bootCount st1 < maxbootCount then bootCount st1 + 1 else 0) \<rparr>,
               sent1 @ sent2)))))"

definition setup_V2_checked :: "rtc \<Rightarrow> wakeup \<Rightarrow> fault + (rtc \<times> request list)" where
  "setup_V2_checked st inp = setup_V2_with currentData_declared st inp"

text \<open>
  part\_000 lines 116-170: \<^verbatim>\<open>currentData[0]\<close> is read in every wake-up (lines 116, 118,
  121 and 126).
\<close>

definition rain_evaluation_part_000_checked ::
  "rtc \<Rightarrow> buffer \<Rightarrow> fault + (rtc \<times> request list)" where
  "rain_evaluation_part_000_checked st cur =
     then_do (read_checked cur 0) (\<lambda>c.
       (if precipRate c > 0 then
          (let st1 = st \<lparr> raindelayActive := True \<rparr>;
               sent = (if raindelayActive st1 \<and> raindelayCount st1 = 0
                       then [Control_rd rainDelay] else []);
               st2 = st1 \<lparr> raindelayCount :=
                       (if raindelayCount st1 < maxrainCount then raindelayCount st1 + 1
                        else 0) \<rparr>
           in Inr (st2, sent))
        else Inr (st \<lparr> raindelayActive := False \<rparr>, [])))"

text \<open>
  part\_000 lines 179-270: the formula reads \<^verbatim>\<open>historyData[5]\<close> and \<^verbatim>\<open>currentData[0]\<close>
  (lines 211-214).
\<close>

definition watering_evaluation_part_000_checked ::
  "rtc \<Rightarrow> wakeup \<Rightarrow> buffer \<Rightarrow> fault + request list" where
  "watering_evaluation_part_000_checked st inp cur =
     (if bootCount st = 0 then
        then_do (fetchWUdata_checked (history_exchange inp)
                   (historyData 7 (history_stack inp)) 7) (\<lambda>f.
        then_do (read_each (data f) (count f)) (\<lambda>_.
        then_do (read_checked (data f) 5) (\<lambda>h.
        then_do (read_checked cur 0) (\<lambda>c.
          Inr [Change_o23 (percentWatering h c)]))))
      else Inr [])"

text \<open>\<^verbatim>\<open>setup\<close> of part\_000, likewise; the fetch is called with \<open>maxData = 1\<close> (line 112).\<close>

definition setup_part_000_with ::
  "buffer \<Rightarrow> rtc \<Rightarrow> wakeup \<Rightarrow> (fault + (rtc \<times> request list)) option" where
  "setup_part_000_with cur0 st inp =
     (if \<not> wifi_connected inp then None
      else Some (
        then_do (fetchWUdata_checked (current_exchange inp) cur0 1) (\<lambda>f.
        then_do (rain_evaluation_part_000_checked st (data f)) (\<lambda>(st1, sent1).
        then_do (watering_evaluation_part_000_checked st1 inp (data f)) (\<lambda>sent2.
          Inr (st1 \<lparr> bootCount :=
                       (if bootCount st1 < maxbootCount then bootCount st1 + 1 else 0) \<rparr>,
               sent1 @ sent2))))))"

definition setup_part_000_checked ::
  "rtc \<Rightarrow> wakeup \<Rightarrow> (fault + (rtc \<times> request list)) option" where
  "setup_part_000_checked st inp = setup_part_000_with currentData_declared st inp"

text \<open>
  The fetch gets as far as the element loop, and the first element of the array decodes.
\<close>

definition reaches_array :: "exchange \<Rightarrow> bool" where
  "reaches_array x = (connect_ok x \<and> sendRequest x \<and> checkResponse x \<and> jumpTostart x)"

definition decodes_first :: "exchange \<Rightarrow> bool" where
  "decodes_first x = (deserializeWeatherData (deserializeJson (array_body x)) \<noteq> None)"

text \<open>A JSON object that has all five members.\<close>

definition observation :: "string \<Rightarrow> int \<Rightarrow> rat \<Rightarrow> rat \<Rightarrow> rat \<Rightarrow> JsonDocument" where
  "observation t h temp rate tot =
     \<lparr> member_obsTimeLocal = Some t, member_humidityAvg = Some h, member_tempAvg = Some temp,
       member_precipRate = Some rate, member_precipTotal = Some tot \<rparr>"

text \<open>The record that a successful \<^verbatim>\<open>deserializeWeatherData\<close> writes for a document.\<close>

definition decoded :: "JsonDocument \<Rightarrow> Weather" where
  "decoded d = the (deserializeWeatherData (Some d))"

text \<open>The values of the rain-delay and of the water-level requests in a list of requests.\<close>

fun rain_delays :: "request list \<Rightarrow> int list" where
  "rain_delays [] = []"
| "rain_delays (Control_rd h # rs) = h # rain_delays rs"
| "rain_delays (_ # rs) = rain_delays rs"


text \<open>Both counters within their bounds.\<close>

definition counters_in_range :: "rtc \<Rightarrow> bool" where
  "counters_in_range st =
     (0 \<le> bootCount st \<and> bootCount st \<le> maxbootCount \<and>
      0 \<le> raindelayCount st \<and> raindelayCount st \<le> maxrainCount)"

subsection \<open>Sample inputs\<close>

definition dry_day :: JsonDocument where
  "dry_day = observation ''2020-04-01 23:59:56'' 50 80 0 0"

definition hot_day :: JsonDocument where
  "hot_day = observation ''2020-04-01 23:59:56'' 50 200 0 0"

definition next_day :: JsonDocument where
  "next_day = observation ''2020-04-02 10:00:00'' 61 (117/2) (1/100) 0"

definition no_rain_now :: JsonDocument where
  "no_rain_now = observation ''2020-04-02 10:14:30'' 70 55 0 0"


definition sample_wakeup :: wakeup where
  "sample_wakeup =
     \<lparr> wifi_connected = True,
       current_exchange = served (json_array [no_rain_now]),
       history_exchange = served (json_array [dry_day, next_day]),
       current_stack = blank, history_stack = (\<lambda>_. blank) \<rparr>"

definition raining :: rtc where
  "raining = \<lparr> bootCount = 1, raindelayActive = True, raindelayCount = 5 \<rparr>"

definition refused :: exchange where
  "refused = \<lparr> connect_ok = False, println_ok = False, status_200 = False,
               marker_found = False, array_body = [] \<rparr>"

definition hot_wakeup :: wakeup where
  "hot_wakeup = sample_wakeup \<lparr> history_exchange := served (json_array [hot_day, next_day]) \<rparr>"


definition offline_wakeup :: wakeup where
  "offline_wakeup = sample_wakeup \<lparr> wifi_connected := False \<rparr>"

definition unanswered_wakeup :: wakeup where
  "unanswered_wakeup = sample_wakeup \<lparr> current_exchange := refused \<rparr>"

definition undecodable_wakeup :: wakeup where
  "undecodable_wakeup =
     sample_wakeup \<lparr> current_exchange := served [Element None False],
                     current_stack := blank \<lparr> precipRate := 1 \<rparr> \<rparr>"

section \<open>The decoder\<close>

lemma deserializeWeatherData_Some:
  "deserializeWeatherData (Some d) = Some (decoded d)"
  by (simp add: decoded_def deserializeWeatherData_def)

lemma decoded_fields:
  "obsTimeLocal (decoded d) = take 63 (case member_obsTimeLocal d of None \<Rightarrow> ''N/A'' | Some t \<Rightarrow> t)"
  "humidityAvg (decoded d) = (case member_humidityAvg d of None \<Rightarrow> 0 | Some h \<Rightarrow> h)"
  "tempAvg (decoded d) = (case member_tempAvg d of None \<Rightarrow> 0 | Some t \<Rightarrow> t)"
  "precipRate (decoded d) = (case member_precipRate d of None \<Rightarrow> 0 | Some p \<Rightarrow> p)"
  "precipTotal (decoded d) = (case member_precipTotal d of None \<Rightarrow> 0 | Some p \<Rightarrow> p)"
  by (simp_all add: decoded_def deserializeWeatherData_def strlcpy_def)

text \<open>
  C7, as amended. \<^verbatim>\<open>deserializeWeatherData\<close> fails exactly when \<^verbatim>\<open>deserializeJson\<close>
  reports an error. For a document that was parsed it always returns a record: a
  missing time stamp is read as \<open>N/A\<close>, and a missing or unconvertible \<open>humidityAvg\<close>,
  \<open>tempAvg\<close>, \<open>precipRate\<close> or \<open>precipTotal\<close> is read as 0 and does not make the decoder
  fail.
\<close>

theorem deserializeWeatherData_fails_only_on_parse_error:
  "(deserializeWeatherData r = None \<longleftrightarrow> r = None) \<and>
   (\<exists>w. deserializeWeatherData (Some doc) = Some w \<and>
        (member_obsTimeLocal doc = None \<longrightarrow> obsTimeLocal w = ''N/A'') \<and>
        (member_humidityAvg doc = None \<longrightarrow> humidityAvg w = 0) \<and>
        (member_tempAvg doc = None \<longrightarrow> tempAvg w = 0) \<and>
        (member_precipRate doc = None \<longrightarrow> precipRate w = 0) \<and>
        (member_precipTotal doc = None \<longrightarrow> precipTotal w = 0))"
  by (simp add: deserializeWeatherData_def strlcpy_def split: option.split)

theorem deserializeWeatherData_fails_only_on_parse_error_witness:
  "\<exists>w. deserializeWeatherData (Some no_document) = Some w \<and> obsTimeLocal w = ''N/A'' \<and>
       humidityAvg w = 0 \<and> tempAvg w = 0 \<and> precipRate w = 0 \<and> precipTotal w = 0"
  using deserializeWeatherData_fails_only_on_parse_error [of None no_document]
  by (simp add: no_document_def)

text \<open>
  The claim as it was stated fails on an object without any of the numeric members:
  the decoder returns a record.
\<close>

theorem missing_numeric_fields_counterexample:
  "member_humidityAvg no_document = None \<and> member_tempAvg no_document = None \<and>
   member_precipRate no_document = None \<and> member_precipTotal no_document = None \<and>
   deserializeWeatherData (Some no_document) =
     Some \<lparr> obsTimeLocal = ''N/A'', humidityAvg = 0, tempAvg = 0, precipRate = 0,
            precipTotal = 0 \<rparr>"
  by (simp add: no_document_def deserializeWeatherData_def strlcpy_def)

section \<open>The element loop\<close>

lemma read_elements_declared:
  "declared (snd (read_elements s b n maxData)) = declared b"
  by (induction s b n maxData rule: read_elements.induct)
     (auto simp: store_def split: option.split)

lemma read_elements_length:
  "length (cells (snd (read_elements s b n maxData))) = length (cells b)"
  by (induction s b n maxData rule: read_elements.induct)
     (auto simp: store_def split: option.split)

lemma read_elements_below:
  "i < n \<Longrightarrow> cells (snd (read_elements s b n maxData)) ! i = cells b ! i"
  by (induction s b n maxData rule: read_elements.induct)
     (auto simp: store_def split: option.split)

lemma read_elements_array_count:
  "ds \<noteq> [] \<Longrightarrow> n \<le> maxData \<Longrightarrow>
   fst (read_elements (json_array ds) b n maxData) = min (n + length ds) maxData"
  by (induction ds arbitrary: b n rule: json_array.induct)
     (auto simp: deserializeJson_def deserializeWeatherData_Some jumpToNextElement_def)

lemma read_elements_array_cell:
  "ds \<noteq> [] \<Longrightarrow> n \<le> i \<Longrightarrow> i < min (n + length ds) maxData \<Longrightarrow>
   maxData \<le> length (cells b) \<Longrightarrow>
   cells (snd (read_elements (json_array ds) b n maxData)) ! i = decoded (ds ! (i - n))"
proof (induction ds arbitrary: b n rule: json_array.induct)
  case 1
  then show ?case by simp
next
  case (2 d)
  then have "i = n" by simp
  with 2 show ?case
    by (simp add: deserializeJson_def deserializeWeatherData_Some jumpToNextElement_def
        store_def)
next
  case (3 d d' ds)
  show ?case
  proof (cases "i = n")
    case True
    with 3 show ?thesis
      by (simp add: deserializeJson_def deserializeWeatherData_Some jumpToNextElement_def
          read_elements_below store_def)
  next
    case False
    with 3 have above: "Suc n \<le> i" by simp
    moreover from 3 have "i < min (Suc n + length (d' # ds)) maxData" by simp
    moreover from 3 have "maxData \<le> length (cells (store b n (decoded d)))"
      by (simp add: store_def)
    ultimately have
      "cells (snd (read_elements (json_array (d' # ds)) (store b n (decoded d)) (Suc n)
         maxData)) ! i = decoded ((d' # ds) ! (i - Suc n))"
      by (intro "3.IH") simp_all
    moreover from above have "(d # d' # ds) ! (i - n) = (d' # ds) ! (i - Suc n)"
      by (simp add: Suc_diff_le)
    ultimately show ?thesis using 3
      by (simp add: deserializeJson_def deserializeWeatherData_Some jumpToNextElement_def)
  qed
qed

lemma fetchWUdata_served:
  "fetchWUdata (served body) b maxData =
     \<lparr> count = fst (read_elements body b 0 maxData),
       data = snd (read_elements body b 0 maxData), client = Stopped \<rparr>"
  by (simp add: fetchWUdata_def served_def sendRequest_def checkResponse_def jumpTostart_def
      destroy_def stop_def split: prod.split)

lemma count_fetchWUdata_array:
  "ds \<noteq> [] \<Longrightarrow>
   count (fetchWUdata (served (json_array ds)) b maxData) = min (length ds) maxData"
  by (simp add: fetchWUdata_served read_elements_array_count)

lemma cell_fetchWUdata_array:
  "ds \<noteq> [] \<Longrightarrow> i < min (length ds) maxData \<Longrightarrow> maxData \<le> length (cells b) \<Longrightarrow>
   cells (data (fetchWUdata (served (json_array ds)) b maxData)) ! i = decoded (ds ! i)"
  using read_elements_array_cell [of ds 0 i maxData b]
  by (simp add: fetchWUdata_served)

text \<open>
  C1, as amended. For a JSON array behind the marker that has at least one element,
  all of them objects the parser accepts, and an output array with room for \<open>maxData\<close>
  records, \<^verbatim>\<open>fetchWUdata\<close> returns the smaller of the number of elements and \<open>maxData\<close>.
  Every record below that count has the \<open>humidityAvg\<close>, \<open>tempAvg\<close>, \<open>precipRate\<close> and
  \<open>precipTotal\<close> of the element at the same index, and as \<open>obsTimeLocal\<close> the first 63
  bytes of the element's time stamp.
\<close>

theorem fetchWUdata_nonempty_array:
  fixes ds :: "JsonDocument list"
  defines "f \<equiv> \<lambda>weatherData maxData. fetchWUdata (served (json_array ds)) weatherData maxData"
  assumes "ds \<noteq> []" and "maxData \<le> length (cells weatherData)"
  shows "count (f weatherData maxData) = min (length ds) maxData \<and>
    (\<forall>i < count (f weatherData maxData).
       (\<forall>t. member_obsTimeLocal (ds ! i) = Some t \<longrightarrow>
            obsTimeLocal (cells (data (f weatherData maxData)) ! i) = take 63 t) \<and>
       (\<forall>h. member_humidityAvg (ds ! i) = Some h \<longrightarrow>
            humidityAvg (cells (data (f weatherData maxData)) ! i) = h) \<and>
       (\<forall>t. member_tempAvg (ds ! i) = Some t \<longrightarrow>
            tempAvg (cells (data (f weatherData maxData)) ! i) = t) \<and>
       (\<forall>p. member_precipRate (ds ! i) = Some p \<longrightarrow>
            precipRate (cells (data (f weatherData maxData)) ! i) = p) \<and>
       (\<forall>p. member_precipTotal (ds ! i) = Some p \<longrightarrow>
            precipTotal (cells (data (f weatherData maxData)) ! i) = p))"
proof -
  have n: "count (f weatherData maxData) = min (length ds) maxData"
    using assms(2) by (simp add: f_def count_fetchWUdata_array)
  have "cells (data (f weatherData maxData)) ! i = decoded (ds ! i)"
    if "i < min (length ds) maxData" for i
    using that assms(2,3) by (simp add: f_def cell_fetchWUdata_array)
  with n show ?thesis
    by (simp add: decoded_fields)
qed

theorem fetchWUdata_nonempty_array_witness:
  "count (fetchWUdata (served (json_array
      [observation ''2020-04-01 23:59:56'' 50 80 0 (1/10),
       observation ''2020-04-02 23:59:56'' 61 (117/2) (1/100) 0,
       observation ''2020-04-03 10:14:30'' 70 55 0 0]))
      (historyData 2 (\<lambda>_. blank)) 2) = 2
   \<and> humidityAvg (cells (data (fetchWUdata (served (json_array
      [observation ''2020-04-01 23:59:56'' 50 80 0 (1/10),
       observation ''2020-04-02 23:59:56'' 61 (117/2) (1/100) 0,
       observation ''2020-04-03 10:14:30'' 70 55 0 0]))
      (historyData 2 (\<lambda>_. blank)) 2)) ! 1) = 61
   \<and> tempAvg (cells (data (fetchWUdata (served (json_array
      [observation ''2020-04-01 23:59:56'' 50 80 0 (1/10),
       observation ''2020-04-02 23:59:56'' 61 (117/2) (1/100) 0,
       observation ''2020-04-03 10:14:30'' 70 55 0 0]))
      (historyData 2 (\<lambda>_. blank)) 2)) ! 1) = 117/2"
proof -
  let ?ds = "[observation ''2020-04-01 23:59:56'' 50 80 0 (1/10),
       observation ''2020-04-02 23:59:56'' 61 (117/2) (1/100) 0,
       observation ''2020-04-03 10:14:30'' 70 55 0 0]"
  let ?f = "fetchWUdata (served (json_array ?ds)) (historyData 2 (\<lambda>_. blank)) 2"
  have nonempty: "?ds \<noteq> []" by simp
  have room: "2 \<le> length (cells (historyData 2 (\<lambda>_. blank)))"
    by (simp add: historyData_def)
  have humidity: "member_humidityAvg (?ds ! 1) = Some 61"
    and temp: "member_tempAvg (?ds ! 1) = Some (117/2)"
    by (simp_all add: observation_def)
  note array = fetchWUdata_nonempty_array [OF nonempty room]
  have "min (length ?ds) 2 = 2" by simp
  with array [THEN conjunct1] have n: "count ?f = 2" by (rule trans)
  then have below: "1 < count ?f" by simp
  note fields = array [THEN conjunct2, rule_format, OF below]
  from fields humidity have "humidityAvg (cells (data ?f) ! 1) = 61" by blast
  moreover from fields temp have "tempAvg (cells (data ?f) ! 1) = 117/2" by blast
  ultimately show ?thesis using n by (intro conjI)
qed

text \<open>
  The claim as it was stated fails on the empty array, for which the count is 1 and
  not 0, and on a time stamp of 64 bytes, of which the record keeps 63.
\<close>

theorem fetchWUdata_array_counterexample:
  "count (fetchWUdata (served (json_array [])) (historyData 8 (\<lambda>_. blank)) 8)
     \<noteq> min (length ([] :: JsonDocument list)) 8
   \<and> member_obsTimeLocal (observation (replicate 64 CHR ''9'') 50 80 0 0)
       = Some (replicate 64 CHR ''9'')
   \<and> obsTimeLocal (cells (data (fetchWUdata
         (served (json_array [observation (replicate 64 CHR ''9'') 50 80 0 0]))
         (historyData 8 (\<lambda>_. blank)) 8)) ! 0)
     \<noteq> replicate 64 CHR ''9''"
proof -
  have "cells (historyData 8 (\<lambda>_. blank)) \<noteq> []"
    by (simp add: historyData_def upt_conv_Cons)
  then show ?thesis
    by (simp add: fetchWUdata_served deserializeJson_def deserializeWeatherData_def
        jumpToNextElement_def store_def observation_def strlcpy_def nth_list_update
        split: option.split)
qed

lemma read_elements_failure_counted:
  "n + length ds < maxData \<Longrightarrow>
   read_elements (map (\<lambda>d. Element (Some d) True) ds @ Element None c # rest) b n maxData
     = (Suc (n + length ds),
        snd (read_elements (map (\<lambda>d. Element (Some d) True) ds) b n (n + length ds)))"
proof (induction ds arbitrary: b n)
  case Nil
  then show ?case
    by (simp add: deserializeJson_def deserializeWeatherData_def)
next
  case (Cons d ds)
  then have "Suc n + length ds < maxData" by simp
  from Cons.IH [OF this] Cons.prems show ?case
    by (simp add: deserializeJson_def deserializeWeatherData_Some jumpToNextElement_def)
qed

lemma read_elements_above:
  "maxData \<le> i \<Longrightarrow> cells (snd (read_elements s b n maxData)) ! i = cells b ! i"
  by (induction s b n maxData rule: read_elements.induct)
     (auto simp: store_def split: option.split)

text \<open>
  For every \<open>k\<close> below \<open>maxData\<close>: after \<open>k\<close> elements that decode, each followed by a
  comma, and one that does not, the count is \<open>k + 1\<close> and the cell at index \<open>k\<close> is as
  it was before the call.
\<close>

lemma fetchWUdata_failure_counted:
  assumes "length ds < maxData"
  shows "count (fetchWUdata
           (served (map (\<lambda>d. Element (Some d) True) ds @ Element None c # rest)) b maxData)
         = Suc (length ds) \<and>
       cells (data (fetchWUdata
           (served (map (\<lambda>d. Element (Some d) True) ds @ Element None c # rest)) b maxData))
         ! length ds = cells b ! length ds"
  using assms read_elements_failure_counted [of 0 ds maxData c rest b]
  by (simp add: fetchWUdata_served read_elements_above)

text \<open>
  C2, evaluated where the very first element fails to decode (\<open>k = 0\<close>) in the
  current-conditions fetch with \<open>maxData = 1\<close>: \<^verbatim>\<open>fetchWUdata\<close> returns 1, and element 0
  of the array, which that count covers, is what the memory held before the call.
\<close>

theorem fetchWUdata_counts_failed_element:
  "count (fetchWUdata (served [Element None False]) (currentData g) 1) = 1 \<and>
   cells (data (fetchWUdata (served [Element None False]) (currentData g) 1)) ! 0 = g"
  by (simp add: fetchWUdata_served deserializeJson_def deserializeWeatherData_def
      currentData_def)

text \<open>
  C8. Whenever the connect has succeeded, the connection is closed when \<^verbatim>\<open>fetchWUdata\<close>
  has returned, on every way out: after a request that could not be sent, a status
  other than 200, a missing array marker (the three \<^verbatim>\<open>return 0\<close> of lines 93, 100 and
  111, where the destructor of the local client closes it), and after the element loop,
  however it ended (\<^verbatim>\<open>client.stop()\<close> of line 125).
\<close>

theorem fetchWUdata_closes_connection:
  "connect_ok x \<Longrightarrow> client (fetchWUdata x weatherData maxData) = Stopped"
  by (simp add: fetchWUdata_def destroy_def stop_def split: prod.split)

theorem fetchWUdata_closes_connection_witness:
  "client (fetchWUdata (served [] \<lparr> println_ok := False \<rparr>) (currentData blank) 1) = Stopped \<and>
   client (fetchWUdata (served [] \<lparr> status_200 := False \<rparr>) (currentData blank) 1) = Stopped \<and>
   client (fetchWUdata (served [] \<lparr> marker_found := False \<rparr>) (currentData blank) 1) = Stopped \<and>
   client (fetchWUdata (served [Element None False]) (currentData blank) 1) = Stopped \<and>
   client (fetchWUdata (served (json_array [no_rain_now])) (currentData blank) 1) = Stopped"
proof -
  have sent: "connect_ok (served [] \<lparr> println_ok := False \<rparr>)"
    and status: "connect_ok (served [] \<lparr> status_200 := False \<rparr>)"
    and marker: "connect_ok (served [] \<lparr> marker_found := False \<rparr>)"
    and decode: "connect_ok (served [Element None False])"
    and full: "connect_ok (served (json_array [no_rain_now]))"
    by (simp_all add: served_def)
  show ?thesis
    by (intro conjI fetchWUdata_closes_connection sent status marker decode full)
qed

section \<open>The sketches\<close>

lemma length_currentData: "length (cells (currentData g)) = 1"
  by (simp add: currentData_def)


lemma decoded_observation:
  "decoded (observation t h temp rate tot) =
     \<lparr> obsTimeLocal = take 63 t, humidityAvg = h, tempAvg = temp, precipRate = rate,
       precipTotal = tot \<rparr>"
  by (simp add: decoded_def deserializeWeatherData_def observation_def strlcpy_def)

lemma rain_delays_append: "rain_delays (rs @ rs') = rain_delays rs @ rain_delays rs'"
  by (induction rs rule: rain_delays.induct) simp_all


lemma rain_evaluation_V2_bootCount:
  "bootCount (fst (rain_evaluation_V2 st m cur)) = bootCount st"
  by (simp add: rain_evaluation_V2_def Let_def)


lemma rain_delays_watering_evaluation_V2:
  "rain_delays (watering_evaluation_V2 st inp cur) = []"
  by (simp add: watering_evaluation_V2_def Let_def)

lemma setup_V2_connected:
  "wifi_connected inp \<Longrightarrow>
   setup_V2 st inp =
     (let f = fetchWUdata (current_exchange inp) (currentData (current_stack inp)) 1;
          r = rain_evaluation_V2 st (count f) (data f)
      in (fst r \<lparr> bootCount :=
                   (if bootCount (fst r) < maxbootCount then bootCount (fst r) + 1 else 0) \<rparr>,
          snd r @ watering_evaluation_V2 (fst r) inp (data f)))"
  by (simp add: setup_V2_def Let_def split: prod.split)

lemma setup_part_000_connected:
  "wifi_connected inp \<Longrightarrow>
   setup_part_000 st inp =
     (let f = fetchWUdata (current_exchange inp) (currentData (current_stack inp)) 1;
          r = rain_evaluation_part_000 st (data f)
      in Some (fst r \<lparr> bootCount :=
                   (if bootCount (fst r) < maxbootCount then bootCount (fst r) + 1 else 0) \<rparr>,
          snd r @ watering_evaluation_part_000 (fst r) inp (data f)))"
  by (simp add: setup_part_000_def Let_def split: prod.split)


subsection \<open>The sample inputs, evaluated\<close>

lemma sample_current:
  "count (fetchWUdata (current_exchange sample_wakeup)
      (currentData (current_stack sample_wakeup)) (Suc 0)) = 1"
  "cells (data (fetchWUdata (current_exchange sample_wakeup)
      (currentData (current_stack sample_wakeup)) (Suc 0))) ! 0 = decoded no_rain_now"
  using count_fetchWUdata_array [of "[no_rain_now]" "currentData blank" 1]
    cell_fetchWUdata_array [of "[no_rain_now]" 0 1 "currentData blank"]
  by (simp_all add: sample_wakeup_def length_currentData del: json_array.simps)





subsection \<open>The rain evaluation\<close>

text \<open>
  \<^verbatim>\<open>setup\<close> of OS\_WU\_WeatherService\_V2.ino. With a count above 0: rain sets
  \<open>raindelayActive\<close>, sends one rain delay exactly from \<open>raindelayCount = 0\<close> and
  advances \<open>raindelayCount\<close>; no rain clears \<open>raindelayActive\<close>, resets \<open>raindelayCount\<close>
  and sends nothing. With the count 0 both rain variables stay as they were and no rain
  delay is sent.
\<close>

lemma setup_V2_rain:
  assumes "wifi_connected inp"
    and "0 < count (fetchWUdata (current_exchange inp) (currentData (current_stack inp)) 1)"
  shows
    "(0 < precipRate (cells (data (fetchWUdata (current_exchange inp)
          (currentData (current_stack inp)) 1)) ! 0) \<longrightarrow>
        raindelayActive (fst (setup_V2 st inp)) \<and>
        rain_delays (snd (setup_V2 st inp)) = (if raindelayCount st = 0 then [rainDelay] else []) \<and>
        raindelayCount (fst (setup_V2 st inp)) =
          (if raindelayCount st < maxrainCount then raindelayCount st + 1 else 0)) \<and>
     (precipRate (cells (data (fetchWUdata (current_exchange inp)
          (currentData (current_stack inp)) 1)) ! 0) \<le> 0 \<longrightarrow>
        \<not> raindelayActive (fst (setup_V2 st inp)) \<and>
        raindelayCount (fst (setup_V2 st inp)) = 0 \<and>
        rain_delays (snd (setup_V2 st inp)) = [])"
  using assms
  by (simp add: setup_V2_connected Let_def rain_delays_append
      rain_delays_watering_evaluation_V2 rain_evaluation_V2_def)

lemma setup_V2_no_record:
  assumes "count (fetchWUdata (current_exchange inp) (currentData (current_stack inp)) 1) = 0"
  shows "raindelayActive (fst (setup_V2 st inp)) = raindelayActive st \<and>
     raindelayCount (fst (setup_V2 st inp)) = raindelayCount st \<and>
     rain_delays (snd (setup_V2 st inp)) = []"
proof (cases "wifi_connected inp")
  case True
  with assms show ?thesis
    by (simp add: setup_V2_connected Let_def rain_delays_append
      rain_delays_watering_evaluation_V2 rain_evaluation_V2_def)
next
  case False
  then show ?thesis by (simp add: setup_V2_def)
qed

text \<open>
  C3, evaluated on \<^verbatim>\<open>setup\<close> of part\_000 for a wake-up that obtains a current record
  without rain while \<open>raindelayCount\<close> is 5: the sketch clears \<open>raindelayActive\<close> and
  leaves \<open>raindelayCount\<close> at 5, where the claim has it reset to 0.
\<close>

theorem setup_part_000_keeps_raindelayCount:
  "0 < count (fetchWUdata (current_exchange sample_wakeup)
      (currentData (current_stack sample_wakeup)) 1) \<and>
   precipRate (cells (data (fetchWUdata (current_exchange sample_wakeup)
      (currentData (current_stack sample_wakeup)) 1)) ! 0) \<le> 0 \<and>
   raindelayCount raining = 5 \<and>
   setup_part_000 raining sample_wakeup =
     Some (\<lparr> bootCount = 2, raindelayActive = False, raindelayCount = 5 \<rparr>, [])"
proof -
  have wifi: "wifi_connected sample_wakeup"
    by (simp add: sample_wakeup_def)
  show ?thesis
    by (simp add: setup_part_000_connected [OF wifi] Let_def sample_current
        decoded_observation no_rain_now_def rain_evaluation_part_000_def
        watering_evaluation_part_000_def raining_def maxbootCount_def)
qed

text \<open>
  C9, evaluated on wake-ups whose current-conditions fetch decodes no record. In
  \<^verbatim>\<open>setup\<close> of part\_000 the fetch cannot connect and returns 0; the sketch still
  evaluates element 0 of the array, which holds what the stack held: with a rate of 0
  there it clears \<open>raindelayActive\<close>, with a rate above 0 it sets \<open>raindelayActive\<close>,
  advances \<open>raindelayCount\<close> and, from the count 0, sends a rain delay. In \<^verbatim>\<open>setup\<close> of
  V2 the first element fails to decode: the array is as it was, the fetch returns 1, and
  the sketch acts on the rate the stack held.
\<close>

theorem setup_acts_without_record:
  "count (fetchWUdata (current_exchange unanswered_wakeup)
      (currentData (current_stack unanswered_wakeup)) 1) = 0 \<and>
   setup_part_000 raining unanswered_wakeup =
     Some (\<lparr> bootCount = 2, raindelayActive = False, raindelayCount = 5 \<rparr>, []) \<and>
   setup_part_000 raining (unanswered_wakeup \<lparr> current_stack := blank \<lparr> precipRate := 1 \<rparr> \<rparr>) =
     Some (\<lparr> bootCount = 2, raindelayActive = True, raindelayCount = 6 \<rparr>, []) \<and>
   setup_part_000 (first_boot \<lparr> bootCount := 1 \<rparr>)
       (unanswered_wakeup \<lparr> current_stack := blank \<lparr> precipRate := 1 \<rparr> \<rparr>) =
     Some (\<lparr> bootCount = 2, raindelayActive = True, raindelayCount = 1 \<rparr>, [Control_rd 3]) \<and>
   data (fetchWUdata (current_exchange undecodable_wakeup)
      (currentData (current_stack undecodable_wakeup)) 1)
     = currentData (current_stack undecodable_wakeup) \<and>
   setup_V2 (first_boot \<lparr> bootCount := 1 \<rparr>) undecodable_wakeup =
     (\<lparr> bootCount = 2, raindelayActive = True, raindelayCount = 1 \<rparr>, [Control_rd 3])"
proof -
  have part_000:
    "count (fetchWUdata (current_exchange unanswered_wakeup)
        (currentData (current_stack unanswered_wakeup)) 1) = 0 \<and>
     setup_part_000 raining unanswered_wakeup =
       Some (\<lparr> bootCount = 2, raindelayActive = False, raindelayCount = 5 \<rparr>, []) \<and>
     setup_part_000 raining
         (unanswered_wakeup \<lparr> current_stack := blank \<lparr> precipRate := 1 \<rparr> \<rparr>) =
       Some (\<lparr> bootCount = 2, raindelayActive = True, raindelayCount = 6 \<rparr>, []) \<and>
     setup_part_000 (first_boot \<lparr> bootCount := 1 \<rparr>)
         (unanswered_wakeup \<lparr> current_stack := blank \<lparr> precipRate := 1 \<rparr> \<rparr>) =
       Some (\<lparr> bootCount = 2, raindelayActive = True, raindelayCount = 1 \<rparr>, [Control_rd 3])"
    by (simp add: setup_part_000_def Let_def unanswered_wakeup_def sample_wakeup_def
        refused_def fetchWUdata_def currentData_def blank_def raining_def first_boot_def
        rain_evaluation_part_000_def watering_evaluation_part_000_def
        maxbootCount_def maxrainCount_def rainDelay_def)
  have V2:
    "data (fetchWUdata (current_exchange undecodable_wakeup)
        (currentData (current_stack undecodable_wakeup)) 1)
       = currentData (current_stack undecodable_wakeup) \<and>
     setup_V2 (first_boot \<lparr> bootCount := 1 \<rparr>) undecodable_wakeup =
       (\<lparr> bootCount = 2, raindelayActive = True, raindelayCount = 1 \<rparr>, [Control_rd 3])"
    by (simp add: setup_V2_def Let_def undecodable_wakeup_def sample_wakeup_def
        fetchWUdata_served deserializeJson_def deserializeWeatherData_def currentData_def
        blank_def first_boot_def rain_evaluation_V2_def watering_evaluation_V2_def
        maxbootCount_def maxrainCount_def rainDelay_def)
  from part_000 V2 show ?thesis
    by (intro conjI) simp_all
qed

subsection \<open>The watering evaluation\<close>




subsection \<open>The counters\<close>

lemma rain_evaluation_V2_counters:
  "counters_in_range st \<Longrightarrow> counters_in_range (fst (rain_evaluation_V2 st m cur))"
  by (simp add: counters_in_range_def rain_evaluation_V2_def Let_def maxrainCount_def)

lemma setup_V2_counters:
  "counters_in_range st \<Longrightarrow> counters_in_range (fst (setup_V2 st inp))"
proof (cases "wifi_connected inp")
  case True
  assume "counters_in_range st"
  then have "counters_in_range (fst (rain_evaluation_V2 st m cur))" for m cur
    by (rule rain_evaluation_V2_counters)
  with True show ?thesis
    by (simp add: setup_V2_connected Let_def counters_in_range_def maxbootCount_def)
next
  case False
  assume "counters_in_range st"
  with False show ?thesis by (simp add: setup_V2_def)
qed

lemma wake_cycles_counters:
  "counters_in_range st \<Longrightarrow> counters_in_range (wake_cycles st inps)"
  by (induction inps arbitrary: st) (simp_all add: setup_V2_counters)

lemma counters_first_boot: "counters_in_range first_boot"
  by (simp add: counters_in_range_def first_boot_def maxbootCount_def maxrainCount_def)

lemma setup_V2_bootCount:
  "wifi_connected inp \<Longrightarrow>
   bootCount (fst (setup_V2 st inp)) =
     (if bootCount st < maxbootCount then bootCount st + 1 else 0)"
  by (simp add: setup_V2_connected Let_def rain_evaluation_V2_bootCount)

text \<open>
  C6, as amended. After every run of wake-ups from the first boot, and from any state
  within the bounds, \<open>bootCount\<close> and \<open>raindelayCount\<close> lie in [0, 11]. In a wake-up
  whose WiFi connection comes up \<open>bootCount\<close> is advanced once, whatever the fetches and
  the watering evaluation do: incremented below \<open>maxbootCount\<close>, set to 0 at it, and
  it becomes 0 exactly when it was \<open>maxbootCount\<close>; the same holds for \<open>raindelayCount\<close>
  and \<open>maxrainCount\<close> where it is advanced, which is when a current record with
  \<open>precipRate > 0\<close> was obtained. A wake-up whose WiFi connection fails goes back to
  sleep with the state unchanged, \<open>bootCount\<close> included.
\<close>

theorem counters_wrap:
  fixes st :: rtc and inp :: wakeup
  defines "cur \<equiv> fetchWUdata (current_exchange inp) (currentData (current_stack inp)) 1"
  shows "counters_in_range (wake_cycles first_boot inps) \<and>
    (counters_in_range st \<longrightarrow> counters_in_range (wake_cycles st inps)) \<and>
    (wifi_connected inp \<longrightarrow>
       bootCount (fst (setup_V2 st inp)) =
         (if bootCount st < maxbootCount then bootCount st + 1 else 0)) \<and>
    (wifi_connected inp \<and> counters_in_range st \<longrightarrow>
       (bootCount (fst (setup_V2 st inp)) = 0 \<longleftrightarrow> bootCount st = maxbootCount)) \<and>
    (wifi_connected inp \<and> 0 < count cur \<and> 0 < precipRate (cells (data cur) ! 0) \<longrightarrow>
       raindelayCount (fst (setup_V2 st inp)) =
         (if raindelayCount st < maxrainCount then raindelayCount st + 1 else 0)) \<and>
    (wifi_connected inp \<and> 0 < count cur \<and> 0 < precipRate (cells (data cur) ! 0) \<and>
     counters_in_range st \<longrightarrow>
       (raindelayCount (fst (setup_V2 st inp)) = 0 \<longleftrightarrow> raindelayCount st = maxrainCount)) \<and>
    (\<not> wifi_connected inp \<longrightarrow> setup_V2 st inp = (st, []))"
proof -
  have run: "counters_in_range (wake_cycles first_boot inps)"
    by (simp add: wake_cycles_counters counters_first_boot)
  have run': "counters_in_range st \<longrightarrow> counters_in_range (wake_cycles st inps)"
    by (simp add: wake_cycles_counters)
  have boot: "wifi_connected inp \<longrightarrow>
       bootCount (fst (setup_V2 st inp)) =
         (if bootCount st < maxbootCount then bootCount st + 1 else 0)"
    by (simp add: setup_V2_bootCount)
  have boot0: "wifi_connected inp \<and> counters_in_range st \<longrightarrow>
       (bootCount (fst (setup_V2 st inp)) = 0 \<longleftrightarrow> bootCount st = maxbootCount)"
    by (auto simp add: setup_V2_bootCount counters_in_range_def)
  have rain: "wifi_connected inp \<and> 0 < count cur \<and> 0 < precipRate (cells (data cur) ! 0) \<longrightarrow>
       raindelayCount (fst (setup_V2 st inp)) =
         (if raindelayCount st < maxrainCount then raindelayCount st + 1 else 0)"
    using setup_V2_rain [of inp st] by (simp add: cur_def)
  have rain0: "wifi_connected inp \<and> 0 < count cur \<and> 0 < precipRate (cells (data cur) ! 0) \<and>
     counters_in_range st \<longrightarrow>
       (raindelayCount (fst (setup_V2 st inp)) = 0 \<longleftrightarrow> raindelayCount st = maxrainCount)"
    using rain by (auto simp add: counters_in_range_def)
  have asleep: "\<not> wifi_connected inp \<longrightarrow> setup_V2 st inp = (st, [])"
    by (simp add: setup_V2_def)
  from run run' boot boot0 rain rain0 asleep show ?thesis
    by (intro conjI)
qed

theorem counters_wrap_witness:
  "counters_in_range (wake_cycles first_boot [sample_wakeup, hot_wakeup, offline_wakeup]) \<and>
   bootCount (fst (setup_V2 first_boot sample_wakeup)) = 1 \<and>
   bootCount (fst (setup_V2 (raining \<lparr> bootCount := 11 \<rparr>) sample_wakeup)) = 0"
proof -
  have wifi: "wifi_connected sample_wakeup"
    by (simp add: sample_wakeup_def)
  note first = counters_wrap
    [of "[sample_wakeup, hot_wakeup, offline_wakeup]" first_boot sample_wakeup]
  note last = counters_wrap [of "[]" "raining \<lparr> bootCount := 11 \<rparr>" sample_wakeup]
  from first have "counters_in_range
      (wake_cycles first_boot [sample_wakeup, hot_wakeup, offline_wakeup])"
    by (rule conjunct1)
  moreover from first wifi have "bootCount (fst (setup_V2 first_boot sample_wakeup)) = 1"
    by (simp add: first_boot_def maxbootCount_def)
  moreover from last wifi
  have "bootCount (fst (setup_V2 (raining \<lparr> bootCount := 11 \<rparr>) sample_wakeup)) = 0"
    by (simp add: raining_def maxbootCount_def)
  ultimately show ?thesis by (intro conjI)
qed

text \<open>
  The claim as it was stated fails on a wake-up whose WiFi connection does not come up
  (V2 lines 109-122): \<open>bootCount\<close> is below its maximum and is not advanced.
\<close>

theorem bootCount_not_advanced_counterexample:
  "bootCount first_boot = 0 \<and> bootCount first_boot < maxbootCount \<and>
   bootCount (fst (setup_V2 first_boot offline_wakeup)) = 0 \<and>
   setup_V2 first_boot offline_wakeup = (first_boot, [])"
  by (simp add: setup_V2_def offline_wakeup_def first_boot_def maxbootCount_def)

section \<open>The array of the current conditions\<close>

subsection \<open>Accesses within the declared length\<close>

lemma declared_store: "declared (store b i w) = declared b"
  by (simp add: store_def)

lemma read_elements_checked_in_bounds:
  "maxData \<le> declared b \<Longrightarrow>
   read_elements_checked s b n maxData = Inr (read_elements s b n maxData)"
  by (induction s b n maxData rule: read_elements.induct)
     (auto simp: write_checked_def at_checked_def declared_store split: option.split)

lemma fetchWUdata_checked_in_bounds:
  "maxData \<le> declared b \<Longrightarrow> fetchWUdata_checked x b maxData = Inr (fetchWUdata x b maxData)"
  by (simp add: fetchWUdata_checked_def fetchWUdata_def read_elements_checked_in_bounds
      then_do_def split: prod.split)

lemma read_elements_count_le:
  "n \<le> maxData \<Longrightarrow> fst (read_elements s b n maxData) \<le> maxData"
  by (induction s b n maxData rule: read_elements.induct) (auto split: option.split)

lemma fetchWUdata_count_le: "count (fetchWUdata x b maxData) \<le> maxData"
  using read_elements_count_le [of 0 maxData "array_body x" b]
  by (auto simp add: fetchWUdata_def split: prod.split)

lemma fetchWUdata_declared: "declared (data (fetchWUdata x b maxData)) = declared b"
  using read_elements_declared [of "array_body x" b 0 maxData]
  by (auto simp add: fetchWUdata_def split: prod.split)

lemma read_each_in_bounds: "n \<le> declared b \<Longrightarrow> read_each b n = Inr ()"
  by (induction n) (simp_all add: then_do_def read_checked_def at_checked_def)

lemma history_checked_in_bounds:
  "n \<le> declared hist \<Longrightarrow> history_checked n hist = Inr (history_rejected n hist)"
  by (auto simp add: history_checked_def history_rejected_def then_do_def read_checked_def
      at_checked_def)

subsection \<open>Accesses to the array without elements\<close>

lemma read_checked_declared_0: "declared b = 0 \<Longrightarrow> read_checked b i = Inl (OutOfBounds 0 i)"
  by (simp add: read_checked_def at_checked_def)

lemma write_checked_declared_0:
  "declared b = 0 \<Longrightarrow> write_checked b i w = Inl (OutOfBounds 0 i)"
  by (simp add: write_checked_def at_checked_def)

lemma read_elements_checked_declared_0:
  "declared b = 0 \<Longrightarrow>
   read_elements_checked s b 0 (Suc 0) =
     (case deserializeWeatherData (deserializeJson s) of
        None \<Rightarrow> Inr (Suc 0, b) | Some w \<Rightarrow> Inl (OutOfBounds 0 0))"
  by (cases s) (simp_all add: deserializeJson_def deserializeWeatherData_def
      write_checked_declared_0 split: option.split)

lemma watering_evaluation_V2_checked_declared_0:
  assumes "declared cur = 0"
  shows "watering_evaluation_V2_checked st inp cur =
    (if bootCount st = 0 \<and>
        \<not> history_rejected
          (count (fetchWUdata (history_exchange inp) (historyData 8 (history_stack inp)) 8))
          (data (fetchWUdata (history_exchange inp) (historyData 8 (history_stack inp)) 8))
     then Inl (OutOfBounds 0 0) else Inr [])"
proof -
  let ?h = "fetchWUdata (history_exchange inp) (historyData 8 (history_stack inp)) 8"
  have d: "declared (data ?h) = 8"
    by (simp add: fetchWUdata_declared historyData_def)
  have c: "count ?h \<le> 8"
    by (rule fetchWUdata_count_le)
  have fetch: "fetchWUdata_checked (history_exchange inp) (historyData 8 (history_stack inp)) 8
      = Inr ?h"
    by (simp add: fetchWUdata_checked_in_bounds historyData_def)
  have each: "read_each (data ?h) (count ?h) = Inr ()"
    using c d by (simp add: read_each_in_bounds)
  have check: "history_checked (count ?h) (data ?h) = Inr (history_rejected (count ?h) (data ?h))"
    using c d by (simp add: history_checked_in_bounds)
  have yesterday: "\<exists>h. read_checked (data ?h) (count ?h - 2) = Inr h"
    using c d by (simp add: read_checked_def at_checked_def)
  then obtain h where h: "read_checked (data ?h) (count ?h - 2) = Inr h" ..
  show ?thesis
    using assms
    by (simp add: watering_evaluation_V2_checked_def fetch each check h then_do_def
        read_checked_declared_0)
qed

lemma count_fetchWUdata_unreached:
  "\<not> reaches_array x \<Longrightarrow> count (fetchWUdata x b maxData) = 0"
  by (auto simp add: fetchWUdata_def reaches_array_def)

lemma fetchWUdata_checked_declared_0:
  assumes "declared b = 0"
  shows "(reaches_array x \<and> decodes_first x \<longrightarrow>
            fetchWUdata_checked x b 1 = Inl (OutOfBounds 0 0)) \<and>
         (\<not> (reaches_array x \<and> decodes_first x) \<longrightarrow>
            (\<exists>f. fetchWUdata_checked x b 1 = Inr f \<and> data f = b \<and>
                 count f = (if reaches_array x then 1 else 0)))"
  using assms
  by (auto simp add: fetchWUdata_checked_def reaches_array_def decodes_first_def
      read_elements_checked_declared_0 then_do_def split: option.split)

lemma rain_evaluation_V2_checked_declared_0:
  "declared cur = 0 \<Longrightarrow>
   rain_evaluation_V2_checked st m cur = (if m > 0 then Inl (OutOfBounds 0 0) else Inr (st, []))"
  by (simp add: rain_evaluation_V2_checked_def read_checked_declared_0 then_do_def)

lemma setup_V2_unreached:
  assumes "wifi_connected inp" and "\<not> reaches_array (current_exchange inp)"
    and "\<not> (bootCount st = 0 \<and>
        \<not> history_rejected
          (count (fetchWUdata (history_exchange inp) (historyData 8 (history_stack inp)) 8))
          (data (fetchWUdata (history_exchange inp) (historyData 8 (history_stack inp)) 8)))"
  shows "setup_V2 st inp =
    (st \<lparr> bootCount := (if bootCount st < maxbootCount then bootCount st + 1 else 0) \<rparr>, [])"
  using assms
  by (auto simp add: setup_V2_connected Let_def count_fetchWUdata_unreached
      rain_evaluation_V2_def watering_evaluation_V2_def)

lemma setup_V2_checked_cases:
  "setup_V2_checked st inp =
    (if wifi_connected inp \<and>
        (reaches_array (current_exchange inp) \<or>
         bootCount st = 0 \<and>
         \<not> history_rejected
           (count (fetchWUdata (history_exchange inp) (historyData 8 (history_stack inp)) 8))
           (data (fetchWUdata (history_exchange inp) (historyData 8 (history_stack inp)) 8)))
     then Inl (OutOfBounds 0 0) else Inr (setup_V2 st inp))"
proof (cases "wifi_connected inp")
  case False
  then show ?thesis
    by (simp add: setup_V2_checked_def setup_V2_with_def setup_V2_def)
next
  case wifi: True
  let ?x = "current_exchange inp"
  have d: "declared currentData_declared = 0"
    by (simp add: currentData_declared_def)
  note fetch = fetchWUdata_checked_declared_0 [OF d, of ?x]
  show ?thesis
  proof (cases "reaches_array ?x \<and> decodes_first ?x")
    case True
    with fetch wifi show ?thesis
      by (simp add: setup_V2_checked_def setup_V2_with_def then_do_def)
  next
    case False
    with fetch obtain f where f: "fetchWUdata_checked ?x currentData_declared 1 = Inr f"
      "data f = currentData_declared" "count f = (if reaches_array ?x then 1 else 0)"
      by blast
    show ?thesis
    proof (cases "reaches_array ?x")
      case True
      with wifi f d show ?thesis
        by (simp add: setup_V2_checked_def setup_V2_with_def then_do_def
            rain_evaluation_V2_checked_declared_0)
    next
      case unreached: False
      show ?thesis
      proof (cases "bootCount st = 0 \<and>
        \<not> history_rejected
          (count (fetchWUdata (history_exchange inp) (historyData 8 (history_stack inp)) 8))
          (data (fetchWUdata (history_exchange inp) (historyData 8 (history_stack inp)) 8))")
        case True
        with wifi f d unreached show ?thesis
          by (simp add: setup_V2_checked_def setup_V2_with_def then_do_def
              rain_evaluation_V2_checked_declared_0 watering_evaluation_V2_checked_declared_0)
      next
        case False
        with wifi unreached have "setup_V2 st inp =
          (st \<lparr> bootCount := (if bootCount st < maxbootCount then bootCount st + 1 else 0) \<rparr>, [])"
          by (intro setup_V2_unreached) simp_all
        with False wifi f d unreached show ?thesis
          by (simp add: setup_V2_checked_def setup_V2_with_def then_do_def
              rain_evaluation_V2_checked_declared_0 watering_evaluation_V2_checked_declared_0)
      qed
    qed
  qed
qed

lemma setup_part_000_checked_faults:
  "wifi_connected inp \<Longrightarrow> setup_part_000_checked st inp = Some (Inl (OutOfBounds 0 0))"
proof -
  assume wifi: "wifi_connected inp"
  let ?x = "current_exchange inp"
  have d: "declared currentData_declared = 0"
    by (simp add: currentData_declared_def)
  note fetch = fetchWUdata_checked_declared_0 [OF d, of ?x]
  show ?thesis
  proof (cases "reaches_array ?x \<and> decodes_first ?x")
    case True
    with fetch wifi show ?thesis
      by (simp add: setup_part_000_checked_def setup_part_000_with_def then_do_def)
  next
    case False
    with fetch obtain f where f: "fetchWUdata_checked ?x currentData_declared 1 = Inr f"
      "data f = currentData_declared"
      by blast
    with wifi d show ?thesis
      by (simp add: setup_part_000_checked_def setup_part_000_with_def then_do_def
          rain_evaluation_part_000_checked_def read_checked_declared_0)
  qed
qed

subsection \<open>With one element\<close>

text \<open>
  Over an array of the current conditions that has one element, no access is out of
  bounds and the checked sketch does what \<open>setup_V2\<close> does.
\<close>

lemma store_redeclared: "store (b \<lparr> declared := d \<rparr>) i w = (store b i w) \<lparr> declared := d \<rparr>"
  by (cases b) (simp add: store_def)

lemma read_elements_redeclared:
  "read_elements s (b \<lparr> declared := d \<rparr>) n maxData =
     (fst (read_elements s b n maxData), (snd (read_elements s b n maxData)) \<lparr> declared := d \<rparr>)"
  by (induction s b n maxData rule: read_elements.induct)
     (auto simp: store_redeclared split: option.split)

lemma fetchWUdata_redeclared:
  "count (fetchWUdata x (b \<lparr> declared := d \<rparr>) maxData) = count (fetchWUdata x b maxData)"
  "cells (data (fetchWUdata x (b \<lparr> declared := d \<rparr>) maxData)) =
     cells (data (fetchWUdata x b maxData))"
  by (auto simp add: fetchWUdata_def read_elements_redeclared split: prod.split)

lemma rain_evaluation_V2_checked_in_bounds:
  "0 < declared cur \<Longrightarrow>
   rain_evaluation_V2_checked st m cur = Inr (rain_evaluation_V2 st m cur)"
  by (simp add: rain_evaluation_V2_checked_def rain_evaluation_V2_def read_checked_def
      at_checked_def then_do_def Let_def)

lemma watering_evaluation_V2_checked_in_bounds:
  assumes "0 < declared cur"
  shows "watering_evaluation_V2_checked st inp cur = Inr (watering_evaluation_V2 st inp cur)"
proof -
  let ?h = "fetchWUdata (history_exchange inp) (historyData 8 (history_stack inp)) 8"
  have d: "declared (data ?h) = 8"
    by (simp add: fetchWUdata_declared historyData_def)
  have c: "count ?h \<le> 8"
    by (rule fetchWUdata_count_le)
  have fetch: "fetchWUdata_checked (history_exchange inp) (historyData 8 (history_stack inp)) 8
      = Inr ?h"
    by (simp add: fetchWUdata_checked_in_bounds historyData_def)
  have each: "read_each (data ?h) (count ?h) = Inr ()"
    using c d by (simp add: read_each_in_bounds)
  have check: "history_checked (count ?h) (data ?h) = Inr (history_rejected (count ?h) (data ?h))"
    using c d by (simp add: history_checked_in_bounds)
  have yesterday: "read_checked (data ?h) (count ?h - 2) = Inr (cells (data ?h) ! (count ?h - 2))"
    using c d by (simp add: read_checked_def at_checked_def)
  have today: "read_checked cur 0 = Inr (cells cur ! 0)"
    using assms by (simp add: read_checked_def at_checked_def)
  show ?thesis
    by (simp add: watering_evaluation_V2_checked_def watering_evaluation_V2_def fetch each
        check yesterday today then_do_def Let_def)
qed

lemma setup_V2_with_one_element:
  "setup_V2_with \<lparr> declared = 1, cells = [g] \<rparr> st inp
     = Inr (setup_V2 st (inp \<lparr> current_stack := g \<rparr>))"
proof (cases "wifi_connected inp")
  case False
  then show ?thesis
    by (simp add: setup_V2_with_def setup_V2_def)
next
  case True
  let ?b = "\<lparr> declared = Suc 0, cells = [g] \<rparr>"
  let ?f = "fetchWUdata (current_exchange inp) ?b (Suc 0)"
  let ?u = "fetchWUdata (current_exchange inp) (currentData g) (Suc 0)"
  have b: "?b = (currentData g) \<lparr> declared := Suc 0 \<rparr>"
    by (simp add: currentData_def)
  have same: "count ?f = count ?u" "cells (data ?f) = cells (data ?u)"
    unfolding b by (rule fetchWUdata_redeclared)+
  have d: "0 < declared (data ?f)"
    by (simp add: fetchWUdata_declared)
  have fetch: "fetchWUdata_checked (current_exchange inp) ?b (Suc 0) = Inr ?f"
    by (simp add: fetchWUdata_checked_in_bounds)
  have rain: "rain_evaluation_V2 st (count ?f) (data ?f) = rain_evaluation_V2 st (count ?u) (data ?u)"
    by (simp add: rain_evaluation_V2_def same)
  have water: "watering_evaluation_V2 st' inp' (data ?f) = watering_evaluation_V2 st' inp' (data ?u)"
    for st' inp'
    by (simp add: watering_evaluation_V2_def same Let_def)
  have hist: "watering_evaluation_V2 st' (inp \<lparr> current_stack := g \<rparr>) cur
      = watering_evaluation_V2 st' inp cur" for st' cur
    by (simp add: watering_evaluation_V2_def)
  from True show ?thesis
    by (simp add: setup_V2_with_def setup_V2_def fetch then_do_def
        rain_evaluation_V2_checked_in_bounds [OF d]
        watering_evaluation_V2_checked_in_bounds [OF d] rain water hist Let_def
        split: prod.split)
qed

text \<open>
  C10. \<^verbatim>\<open>currentData\<close> is declared with 0 elements, the fetch is called on it with
  \<open>maxData = 1\<close>, and element 0 is then read. With checked accesses every access to
  element 0 is out of bounds. \<^verbatim>\<open>setup\<close> of part\_000 ends in that fault in every wake-up
  whose WiFi connection is up. \<^verbatim>\<open>setup\<close> of V2 ends in it exactly when the WiFi
  connection is up and either the current-conditions fetch gets as far as the element
  loop (it writes element 0, or returns 1 and the sketch reads element 0) or the
  watering evaluation reaches its formula (which reads element 0); in every other
  wake-up no element of the array is touched and V2 does what \<open>setup_V2\<close> does.
\<close>

theorem currentData_accesses_out_of_bounds:
  fixes st :: rtc and inp :: wakeup
  defines "hist \<equiv> fetchWUdata (history_exchange inp) (historyData 8 (history_stack inp)) 8"
  shows "declared currentData_declared = 0 \<and>
    read_checked currentData_declared 0 = Inl (OutOfBounds 0 0) \<and>
    write_checked currentData_declared 0 w = Inl (OutOfBounds 0 0) \<and>
    (wifi_connected inp \<longrightarrow> setup_part_000_checked st inp = Some (Inl (OutOfBounds 0 0))) \<and>
    setup_V2_checked st inp =
      (if wifi_connected inp \<and>
          (reaches_array (current_exchange inp) \<or>
           bootCount st = 0 \<and> \<not> history_rejected (count hist) (data hist))
       then Inl (OutOfBounds 0 0) else Inr (setup_V2 st inp))"
proof -
  have d: "declared currentData_declared = 0"
    by (simp add: currentData_declared_def)
  have part_000:
    "wifi_connected inp \<longrightarrow> setup_part_000_checked st inp = Some (Inl (OutOfBounds 0 0))"
    by (simp add: setup_part_000_checked_faults)
  have V2: "setup_V2_checked st inp =
      (if wifi_connected inp \<and>
          (reaches_array (current_exchange inp) \<or>
           bootCount st = 0 \<and> \<not> history_rejected (count hist) (data hist))
       then Inl (OutOfBounds 0 0) else Inr (setup_V2 st inp))"
    unfolding hist_def by (rule setup_V2_checked_cases)
  from d part_000 V2 read_checked_declared_0 [OF d, of 0]
    write_checked_declared_0 [OF d, of 0 w]
  show ?thesis
    by (intro conjI)
qed

theorem currentData_accesses_out_of_bounds_witness:
  "setup_part_000_checked raining unanswered_wakeup = Some (Inl (OutOfBounds 0 0)) \<and>
   setup_V2_checked first_boot sample_wakeup = Inl (OutOfBounds 0 0)"
proof -
  have wifi: "wifi_connected unanswered_wakeup" "wifi_connected sample_wakeup"
    by (simp_all add: unanswered_wakeup_def sample_wakeup_def)
  have reaches: "reaches_array (current_exchange sample_wakeup)"
    by (simp add: reaches_array_def sample_wakeup_def served_def sendRequest_def
        checkResponse_def jumpTostart_def)
  note part_000 = currentData_accesses_out_of_bounds
    [where st = raining and inp = unanswered_wakeup, THEN conjunct2, THEN conjunct2, THEN conjunct2,
     THEN conjunct1, THEN mp, OF wifi(1)]
  note V2 = currentData_accesses_out_of_bounds
    [where st = first_boot and inp = sample_wakeup, THEN conjunct2, THEN conjunct2, THEN conjunct2,
     THEN conjunct2]
  from V2 wifi(2) reaches have "setup_V2_checked first_boot sample_wakeup = Inl (OutOfBounds 0 0)"
    by simp
  with part_000 show ?thesis
    by (intro conjI)
qed

end
